theory Spec2Isabelle
  imports Main "HOL-Library.Sublist" "HOL-Library.Char_ord" "HOL-Library.List_Lexorder"
    "HOL-Library.Multiset"
begin

section \<open>Strings\<close>

text \<open>
  A JavaScript string is modelled as a \<^typ>\<open>string\<close>: one \<^typ>\<open>char\<close> per code unit.
  The route handlers only ever inspect ASCII characters (the slug's character class, the
  literals \<^verbatim>\<open>.md\<close>, \<^verbatim>\<open>rate limit\<close>, \<^verbatim>\<open>file\<close>); every other code unit is
  treated alike. Strings are ordered by \<^verbatim>\<open>HOL-Library.List_Lexorder\<close> over
  \<^verbatim>\<open>HOL-Library.Char_ord\<close>: code unit by code unit, a proper prefix first, which is the
  order of \<^verbatim>\<open>Array.prototype.sort\<close> without a comparator.
\<close>

definition upper_letters :: string where
  "upper_letters = ''ABCDEFGHIJKLMNOPQRSTUVWXYZ''"

definition lower_letters :: string where
  "lower_letters = ''abcdefghijklmnopqrstuvwxyz''"

definition digit_chars :: string where
  "digit_chars = ''0123456789''"

text \<open>\<^verbatim>\<open>String.prototype.toLowerCase\<close>, on one code unit of the ASCII range.\<close>

definition toLowerCase_char :: "char \<Rightarrow> char" where
  "toLowerCase_char c =
     (case map_of (zip upper_letters lower_letters) c of Some l \<Rightarrow> l | None \<Rightarrow> c)"

definition toLowerCase :: "string \<Rightarrow> string" where
  "toLowerCase s = map toLowerCase_char s"

text \<open>\<^verbatim>\<open>s.includes(sub)\<close>: \<^verbatim>\<open>sub\<close> occurs in \<^verbatim>\<open>s\<close> as a contiguous run.\<close>

fun js_includes :: "string \<Rightarrow> string \<Rightarrow> bool" where
  "js_includes [] sub = (sub = [])"
| "js_includes (c # cs) sub = (prefix sub (c # cs) \<or> js_includes cs sub)"

text \<open>\<^verbatim>\<open>s.endsWith(suf)\<close>.\<close>

definition endsWith :: "string \<Rightarrow> string \<Rightarrow> bool" where
  "endsWith s suf = suffix suf s"

text \<open>JavaScript truthiness of a value that is a string, \<^verbatim>\<open>null\<close> or \<^verbatim>\<open>undefined\<close>.\<close>

fun truthy :: "string option \<Rightarrow> bool" where
  "truthy None = False"
| "truthy (Some s) = (s \<noteq> [])"

section \<open>Branch names (\<^verbatim>\<open>createBranchSlug\<close> of \<^verbatim>\<open>src/app/api/pr/route.ts\<close>)\<close>

text \<open>\<^verbatim>\<open>.replace(/\//g, '-')\<close>\<close>

definition replace_slashes :: "string \<Rightarrow> string" where
  "replace_slashes s = map (\<lambda>c. if c = CHR ''/'' then CHR ''-'' else c) s"

text \<open>The character class \<^verbatim>\<open>[a-zA-Z0-9\-]\<close>.\<close>

definition slug_class :: "char \<Rightarrow> bool" where
  "slug_class c = (c \<in> set (lower_letters @ upper_letters @ digit_chars @ ''-''))"

text \<open>\<^verbatim>\<open>.replace(/[^a-zA-Z0-9\-]/g, '')\<close>\<close>

definition remove_non_slug :: "string \<Rightarrow> string" where
  "remove_non_slug s = filter slug_class s"

text \<open>
  Lines 30 to 34: the \<^verbatim>\<open>slug\<close> constant. \<^verbatim>\<open>.substring(0, 40)\<close> keeps at most the first
  40 code units.
\<close>

definition path_slug :: "string \<Rightarrow> string" where
  "path_slug path = take 40 (toLowerCase (remove_non_slug (replace_slashes path)))"

text \<open>\<^verbatim>\<open>.replace(/[:\-]/g, '')\<close>\<close>

definition remove_colons_hyphens :: "string \<Rightarrow> string" where
  "remove_colons_hyphens s = filter (\<lambda>c. c \<noteq> CHR '':'' \<and> c \<noteq> CHR ''-'') s"

text \<open>
  The line terminators that \<^verbatim>\<open>.\<close> of a regular expression does not match (of the code
  units a \<^typ>\<open>char\<close> holds: line feed and carriage return).
\<close>

definition line_terminator :: "char \<Rightarrow> bool" where
  "line_terminator c = (c = CHR 0x0A \<or> c = CHR 0x0D)"

text \<open>
  \<^verbatim>\<open>.replace(/\..+/, '')\<close>: the leftmost full stop that is followed by at least one
  character other than a line terminator is removed, with every such character after it
  (the match is greedy); only this first match is replaced.
\<close>

fun remove_fraction :: "string \<Rightarrow> string" where
  "remove_fraction [] = []"
| "remove_fraction [c] = [c]"
| "remove_fraction (c # d # cs) =
     (if c = CHR ''.'' \<and> \<not> line_terminator d
      then dropWhile (\<lambda>x. \<not> line_terminator x) cs
      else c # remove_fraction (d # cs))"

text \<open>\<^verbatim>\<open>.replace('T', '-')\<close>: a string pattern replaces its first occurrence only.\<close>

fun replace_first_T :: "string \<Rightarrow> string" where
  "replace_first_T [] = []"
| "replace_first_T (c # cs) = (if c = CHR ''T'' then CHR ''-'' # cs else c # replace_first_T cs)"

text \<open>
  Lines 37 to 40: the \<^verbatim>\<open>timestamp\<close> constant, from the string \<^verbatim>\<open>now\<close> that
  \<^verbatim>\<open>new Date().toISOString()\<close> returned.
\<close>

definition compact_timestamp :: "string \<Rightarrow> string" where
  "compact_timestamp now = replace_first_T (remove_fraction (remove_colons_hyphens now))"

text \<open>
  \<^verbatim>\<open>createBranchSlug(path)\<close>. The clock is not an argument of the source function; here
  the string \<^verbatim>\<open>new Date().toISOString()\<close> evaluates to is.
\<close>

definition createBranchSlug :: "string \<Rightarrow> string \<Rightarrow> string" where
  "createBranchSlug path now = ''docs/'' @ path_slug path @ ''-'' @ compact_timestamp now"

text \<open>
  The slug as the specification words it (section 4.2, step 5): "slugify \<^verbatim>\<open>path\<close>
  (lowercase, non-alphanumeric stripped, truncated to 40 chars)". It is compared with
  \<^const>\<open>path_slug\<close> below.
\<close>

definition slugify_spec :: "string \<Rightarrow> string" where
  "slugify_spec path =
     take 40 (filter (\<lambda>c. c \<in> set (lower_letters @ digit_chars)) (toLowerCase path))"

text \<open>A string of decimal digits, as the fields of an ISO 8601 time stamp are.\<close>

definition all_digits :: "string \<Rightarrow> bool" where
  "all_digits s = list_all (\<lambda>c. c \<in> set digit_chars) s"

section \<open>The provider, the runtime and HTTP responses\<close>

text \<open>
  A rejected provider call (and any other exception) is the value the \<^verbatim>\<open>catch\<close> blocks
  inspect: \<^verbatim>\<open>error.status\<close>, \<^verbatim>\<open>error.response?.headers?.['x-ratelimit-remaining']\<close> and
  \<^verbatim>\<open>error.message\<close>, each possibly undefined.
\<close>

record request_error =
  err_status :: "nat option"
  err_ratelimit_remaining :: "string option"
  err_message :: "string option"

text \<open>
  What \<^verbatim>\<open>repos.getContent\<close> resolves to: an array for a directory, otherwise one object
  with (of the fields the handlers read) \<^verbatim>\<open>type\<close>, \<^verbatim>\<open>sha\<close>, \<^verbatim>\<open>name\<close>, \<^verbatim>\<open>path\<close> and
  \<^verbatim>\<open>content\<close>.
\<close>

record content_entry =
  entry_type :: string
  entry_sha :: string
  entry_name :: string
  entry_path :: string
  entry_content :: string

datatype content_data = Listing "content_entry list" | Entry content_entry

text \<open>An item of \<^verbatim>\<open>git.getTree\<close>'s \<^verbatim>\<open>tree\<close> array; both fields are optional in its type.\<close>

record tree_item =
  item_type :: "string option"
  item_path :: "string option"

record pull_request =
  pr_html_url :: string
  pr_number :: int

text \<open>
  The provider calls with their arguments, in the order of the source's object literals:
  \<^verbatim>\<open>{owner, repo}\<close>, \<^verbatim>\<open>{owner, repo, path, ref}\<close>, \<^verbatim>\<open>{owner, repo, ref}\<close>,
  \<^verbatim>\<open>{owner, repo, tree_sha, recursive}\<close>, \<^verbatim>\<open>{owner, repo, ref, sha}\<close>,
  \<^verbatim>\<open>{owner, repo, path, message, content, branch, sha}\<close> and
  \<^verbatim>\<open>{owner, repo, title, body, head, base}\<close>.
\<close>

datatype call =
    ReposGet string string
  | GetContent string string string "string option"
  | GetRef string string string
  | GetTree string string string string
  | CreateRef string string string string
  | CreateOrUpdateFileContents string string string string string string string
  | PullsCreate string string string string string string

text \<open>
  The Octokit client over a provider state \<^typ>\<open>'w\<close>: each call takes the arguments above
  and the state, and gives either the error the promise rejects with or the part of
  \<^verbatim>\<open>data\<close> the handlers read (\<^verbatim>\<open>default_branch\<close>; the content; \<^verbatim>\<open>object.sha\<close>; \<^verbatim>\<open>tree\<close>;
  nothing; nothing; \<^verbatim>\<open>html_url\<close> and \<^verbatim>\<open>number\<close>), with the state after the call.
\<close>

record 'w octokit =
  repos_get :: "string \<Rightarrow> string \<Rightarrow> 'w \<Rightarrow> (request_error + string) \<times> 'w"
  repos_getContent ::
    "string \<Rightarrow> string \<Rightarrow> string \<Rightarrow> string option \<Rightarrow> 'w \<Rightarrow> (request_error + content_data) \<times> 'w"
  git_getRef :: "string \<Rightarrow> string \<Rightarrow> string \<Rightarrow> 'w \<Rightarrow> (request_error + string) \<times> 'w"
  git_getTree ::
    "string \<Rightarrow> string \<Rightarrow> string \<Rightarrow> string \<Rightarrow> 'w \<Rightarrow> (request_error + tree_item list) \<times> 'w"
  git_createRef ::
    "string \<Rightarrow> string \<Rightarrow> string \<Rightarrow> string \<Rightarrow> 'w \<Rightarrow> (request_error + unit) \<times> 'w"
  repos_createOrUpdateFileContents ::
    "string \<Rightarrow> string \<Rightarrow> string \<Rightarrow> string \<Rightarrow> string \<Rightarrow> string \<Rightarrow> string \<Rightarrow> 'w
       \<Rightarrow> (request_error + unit) \<times> 'w"
  pulls_create ::
    "string \<Rightarrow> string \<Rightarrow> string \<Rightarrow> string \<Rightarrow> string \<Rightarrow> string \<Rightarrow> 'w
       \<Rightarrow> (request_error + pull_request) \<times> 'w"

text \<open>
  What the handlers take from Node: \<^verbatim>\<open>Buffer.from(s, 'base64').toString('utf-8')\<close>,
  \<^verbatim>\<open>Buffer.from(s, 'utf-8').toString('base64')\<close>, and the string
  \<^verbatim>\<open>new Date().toISOString()\<close> gives when the branch is named.
\<close>

record runtime =
  base64_to_utf8 :: "string \<Rightarrow> string"
  utf8_to_base64 :: "string \<Rightarrow> string"
  date_toISOString :: string

text \<open>
  The JSON bodies the handlers send: \<^verbatim>\<open>{error}\<close>, \<^verbatim>\<open>ConflictResponse\<close>
  (\<^verbatim>\<open>error\<close>, \<^verbatim>\<open>upstreamSha\<close>, \<^verbatim>\<open>upstreamMarkdown\<close>), \<^verbatim>\<open>CreatePRResponse\<close> (\<^verbatim>\<open>prUrl\<close>,
  \<^verbatim>\<open>prNumber\<close>), \<^verbatim>\<open>TreeResponse\<close> (\<^verbatim>\<open>branch\<close>, \<^verbatim>\<open>files\<close>) and \<^verbatim>\<open>FileResponse\<close>
  (\<^verbatim>\<open>markdown\<close>, \<^verbatim>\<open>sha\<close>, \<^verbatim>\<open>name\<close>, \<^verbatim>\<open>path\<close>).
\<close>

datatype response_body =
    ErrorBody string
  | ConflictResponse string string string
  | CreatePRResponse string int
  | TreeResponse string "string list"
  | FileResponse string string string string

record http_response =
  http_status :: nat
  http_body :: response_body

text \<open>\<^verbatim>\<open>NextResponse.json(body, { status })\<close>; without the second argument the status is 200.\<close>

definition json_response :: "response_body \<Rightarrow> nat \<Rightarrow> http_response" where
  "json_response b st = \<lparr>http_status = st, http_body = b\<rparr>"

section \<open>Control flow of a handler\<close>

text \<open>
  A statement of a \<^verbatim>\<open>try\<close> block completes normally with a value, returns a response
  from the handler, or throws. A block is run from a provider state and gives its
  completion, the provider calls it made, in order, and the state it left.
\<close>

datatype 'a completion = Normal 'a | Return http_response | Throw request_error

type_synonym ('w, 'a) block = "'w \<Rightarrow> 'a completion \<times> call list \<times> 'w"

definition normal :: "'a \<Rightarrow> ('w, 'a) block" where
  "normal a w = (Normal a, [], w)"

definition respond :: "http_response \<Rightarrow> ('w, 'a) block" where
  "respond r w = (Return r, [], w)"

text \<open>\<^verbatim>\<open>await\<close> of a provider call: a rejected promise throws its error.\<close>

definition await :: "call \<Rightarrow> ('w \<Rightarrow> (request_error + 'a) \<times> 'w) \<Rightarrow> ('w, 'a) block" where
  "await c f w = (case f w of (Inl e, w') \<Rightarrow> (Throw e, [c], w') | (Inr a, w') \<Rightarrow> (Normal a, [c], w'))"

text \<open>Sequencing: the rest of the block runs only after a normal completion.\<close>

definition bind :: "('w, 'a) block \<Rightarrow> ('a \<Rightarrow> ('w, 'b) block) \<Rightarrow> ('w, 'b) block" where
  "bind m k w =
     (case m w of
        (Normal a, l, w') \<Rightarrow> (case k a w' of (c, l', w'') \<Rightarrow> (c, l @ l', w''))
      | (Return r, l, w') \<Rightarrow> (Return r, l, w')
      | (Throw e, l, w') \<Rightarrow> (Throw e, l, w'))"

text \<open>\<^verbatim>\<open>try { block } catch (error) { handler }\<close>, every path of which returns a response.\<close>

definition try_catch ::
  "('w, http_response) block \<Rightarrow> (request_error \<Rightarrow> http_response) \<Rightarrow> 'w
     \<Rightarrow> http_response \<times> call list \<times> 'w" where
  "try_catch blk handler w =
     (case blk w of
        (Normal r, l, w') \<Rightarrow> (r, l, w')
      | (Return r, l, w') \<Rightarrow> (r, l, w')
      | (Throw e, l, w') \<Rightarrow> (handler e, l, w'))"

text \<open>The value of a string that has passed a truthiness check.\<close>

fun string_of :: "string option \<Rightarrow> string" where
  "string_of None = []"
| "string_of (Some s) = s"

text \<open>
  The rate-limit signal of the \<^verbatim>\<open>catch\<close> blocks:
  \<^verbatim>\<open>error.response?.headers?.['x-ratelimit-remaining'] === '0' || error.message?.includes('rate limit')\<close>.
\<close>

definition rate_limit_signal :: "request_error \<Rightarrow> bool" where
  "rate_limit_signal e =
     (err_ratelimit_remaining e = Some ''0'' \<or>
      (case err_message e of None \<Rightarrow> False | Some m \<Rightarrow> js_includes m ''rate limit''))"

text \<open>
  Resolving the branch: \<^verbatim>\<open>pr/route.ts\<close> lines 61 to 65 and \<^verbatim>\<open>repo/tree/route.ts\<close> lines
  28 to 31. A falsy branch is replaced by \<^verbatim>\<open>repoData.data.default_branch\<close>.
\<close>

definition resolveBranch ::
  "'w octokit \<Rightarrow> string \<Rightarrow> string \<Rightarrow> string option \<Rightarrow> ('w, string) block" where
  "resolveBranch oct owner repo branch =
     (if \<not> truthy branch then await (ReposGet owner repo) (repos_get oct owner repo)
      else normal (string_of branch))"

section \<open>Publishing: \<^verbatim>\<open>POST\<close> of \<^verbatim>\<open>src/app/api/pr/route.ts\<close>\<close>

text \<open>
  \<^verbatim>\<open>CreatePRRequest\<close> as \<^verbatim>\<open>request.json()\<close> delivers it: a field that is missing is
  \<^verbatim>\<open>undefined\<close>, here \<^const>\<open>None\<close>.
\<close>

record CreatePRRequest =
  rq_owner :: "string option"
  rq_repo :: "string option"
  rq_path :: "string option"
  rq_baseBranch :: "string option"
  rq_baseSha :: "string option"
  rq_markdown :: "string option"
  rq_prTitle :: "string option"
  rq_prBody :: "string option"

text \<open>
  Lines 94 to 138, the steps the source numbers 3 to 6: read the head commit of the base
  branch, create the new branch there, commit the file on it, open the pull request.
  \<^verbatim>\<open>currentSha\<close> is the blob SHA that step 2 fetched.
\<close>

definition POST_steps_3_to_6 ::
  "'w octokit \<Rightarrow> runtime \<Rightarrow> string \<Rightarrow> string \<Rightarrow> string \<Rightarrow> string \<Rightarrow> string option \<Rightarrow> string option
     \<Rightarrow> string \<Rightarrow> string \<Rightarrow> ('w, http_response) block" where
  "POST_steps_3_to_6 oct rt owner repo path markdown prTitle prBody resolvedBaseBranch currentSha =
     bind (await (GetRef owner repo (''heads/'' @ resolvedBaseBranch))
             (git_getRef oct owner repo (''heads/'' @ resolvedBaseBranch))) (\<lambda>baseCommitSha.
     let newBranchName = createBranchSlug path (date_toISOString rt) in
     bind (await (CreateRef owner repo (''refs/heads/'' @ newBranchName) baseCommitSha)
             (git_createRef oct owner repo (''refs/heads/'' @ newBranchName) baseCommitSha))
       (\<lambda>created.
     let commitMessage = ''docs: update '' @ path @ '' via editor'' in
     bind (await (CreateOrUpdateFileContents owner repo path commitMessage
                    (utf8_to_base64 rt markdown) newBranchName currentSha)
             (repos_createOrUpdateFileContents oct owner repo path commitMessage
                (utf8_to_base64 rt markdown) newBranchName currentSha)) (\<lambda>committed.
     let title = (if truthy prTitle then string_of prTitle else ''Update '' @ path);
         body_text = (if truthy prBody then string_of prBody else ''Edited via Notion-like editor'')
     in
     bind (await (PullsCreate owner repo title body_text newBranchName resolvedBaseBranch)
             (pulls_create oct owner repo title body_text newBranchName resolvedBaseBranch))
       (\<lambda>prData.
     respond (json_response (CreatePRResponse (pr_html_url prData) (pr_number prData)) 200)))))"

text \<open>
  The \<^verbatim>\<open>try\<close> block, lines 48 to 138. Its argument is what \<^verbatim>\<open>await request.json()\<close> gives:
  the parsed body, or the error it throws.
\<close>

definition POST_try ::
  "'w octokit \<Rightarrow> runtime \<Rightarrow> request_error + CreatePRRequest \<Rightarrow> ('w, http_response) block" where
  "POST_try oct rt parsed =
     (case parsed of
        Inl e \<Rightarrow> (\<lambda>w. (Throw e, [], w))
      | Inr body \<Rightarrow>
          if \<not> truthy (rq_owner body) \<or> \<not> truthy (rq_repo body) \<or> \<not> truthy (rq_path body) \<or>
             \<not> truthy (rq_baseSha body) \<or> \<not> truthy (rq_markdown body)
          then respond (json_response
                 (ErrorBody ''owner, repo, path, baseSha, and markdown are required'') 400)
          else
            let owner = string_of (rq_owner body); repo = string_of (rq_repo body);
                path = string_of (rq_path body); baseSha = string_of (rq_baseSha body);
                markdown = string_of (rq_markdown body)
            in
            bind (resolveBranch oct owner repo (rq_baseBranch body)) (\<lambda>resolvedBaseBranch.
            bind (await (GetContent owner repo path (Some resolvedBaseBranch))
                    (repos_getContent oct owner repo path (Some resolvedBaseBranch))) (\<lambda>currentFile.
            case currentFile of
              Listing entries \<Rightarrow> respond (json_response (ErrorBody ''Path is not a file'') 400)
            | Entry file \<Rightarrow>
                if entry_type file \<noteq> ''file''
                then respond (json_response (ErrorBody ''Path is not a file'') 400)
                else
                  let currentSha = entry_sha file in
                  if currentSha \<noteq> baseSha
                  then respond (json_response
                         (ConflictResponse ''File changed upstream'' currentSha
                            (base64_to_utf8 rt (entry_content file))) 409)
                  else POST_steps_3_to_6 oct rt owner repo path markdown (rq_prTitle body)
                         (rq_prBody body) resolvedBaseBranch currentSha)))"

text \<open>The \<^verbatim>\<open>catch\<close> block, lines 140 to 182.\<close>

definition POST_catch :: "request_error \<Rightarrow> http_response" where
  "POST_catch error =
     (if err_status error = Some 401
      then json_response (ErrorBody ''Unauthorized or insufficient scope'') 401
      else if err_status error = Some 403
      then (if rate_limit_signal error
            then json_response (ErrorBody ''Rate limit exceeded'') 429
            else json_response (ErrorBody ''Unauthorized or insufficient scope'') 403)
      else if err_status error = Some 404
      then json_response (ErrorBody ''Repo or path not found'') 404
      else if err_status error = Some 409
      then json_response (ErrorBody ''File changed upstream'') 409
      else json_response (ErrorBody ''Failed to create pull request'') 500)"

definition POST ::
  "'w octokit \<Rightarrow> runtime \<Rightarrow> request_error + CreatePRRequest \<Rightarrow> 'w
     \<Rightarrow> http_response \<times> call list \<times> 'w" where
  "POST oct rt parsed = try_catch (POST_try oct rt parsed) POST_catch"

section \<open>Listing: \<^verbatim>\<open>GET\<close> of \<^verbatim>\<open>src/app/api/repo/tree/route.ts\<close>\<close>

text \<open>The query parameters: \<^verbatim>\<open>searchParams.get\<close> gives a string or \<^verbatim>\<open>null\<close>.\<close>

record tree_query =
  tq_owner :: "string option"
  tq_repo :: "string option"
  tq_branch :: "string option"

text \<open>The predicate of the \<^verbatim>\<open>filter\<close>, lines 52 to 56.\<close>

definition is_markdown_blob :: "tree_item \<Rightarrow> bool" where
  "is_markdown_blob item =
     (item_type item = Some ''blob'' \<and> truthy (item_path item) \<and>
      (endsWith (string_of (item_path item)) ''.md'' \<or>
       endsWith (string_of (item_path item)) ''.markdown''))"

text \<open>Lines 51 to 58: \<^verbatim>\<open>filter\<close>, \<^verbatim>\<open>map\<close> to the path, \<^verbatim>\<open>sort\<close>.\<close>

definition markdownFiles :: "tree_item list \<Rightarrow> string list" where
  "markdownFiles tree = sort (map (\<lambda>item. string_of (item_path item)) (filter is_markdown_blob tree))"

definition tree_GET_try :: "'w octokit \<Rightarrow> tree_query \<Rightarrow> ('w, http_response) block" where
  "tree_GET_try oct query =
     (if \<not> truthy (tq_owner query) \<or> \<not> truthy (tq_repo query)
      then respond (json_response (ErrorBody ''owner and repo are required'') 400)
      else
        let owner = string_of (tq_owner query); repo = string_of (tq_repo query) in
        bind (resolveBranch oct owner repo (tq_branch query)) (\<lambda>branch.
        bind (await (GetRef owner repo (''heads/'' @ branch))
                (git_getRef oct owner repo (''heads/'' @ branch))) (\<lambda>sha.
        bind (await (GetTree owner repo sha ''1'') (git_getTree oct owner repo sha ''1'')) (\<lambda>tree.
        respond (json_response (TreeResponse branch (markdownFiles tree)) 200)))))"

definition tree_GET_catch :: "request_error \<Rightarrow> http_response" where
  "tree_GET_catch error =
     (if err_status error = Some 404
      then json_response (ErrorBody ''Repository not found or branch does not exist'') 404
      else if err_status error = Some 403
      then json_response
             (ErrorBody ''Rate limit exceeded. Consider adding a GITHUB_TOKEN to .env.local'') 403
      else json_response (ErrorBody ''Failed to fetch repository tree'') 500)"

definition tree_GET :: "'w octokit \<Rightarrow> tree_query \<Rightarrow> 'w \<Rightarrow> http_response \<times> call list \<times> 'w" where
  "tree_GET oct query = try_catch (tree_GET_try oct query) tree_GET_catch"

section \<open>Fetching a file: \<^verbatim>\<open>GET\<close> of \<^verbatim>\<open>src/app/api/repo/file/route.ts\<close>\<close>

record file_query =
  fq_owner :: "string option"
  fq_repo :: "string option"
  fq_path :: "string option"
  fq_ref :: "string option"

text \<open>
  The \<^verbatim>\<open>try\<close> block, lines 15 to 55, the same in \<^verbatim>\<open>src/app/api/repo/file/route.ts\<close> and in
  \<^verbatim>\<open>src/unnamed/part_000\<close>. \<^verbatim>\<open>ref || undefined\<close> passes a truthy \<^verbatim>\<open>ref\<close> only.
\<close>

definition file_GET_try :: "'w octokit \<Rightarrow> runtime \<Rightarrow> file_query \<Rightarrow> ('w, http_response) block" where
  "file_GET_try oct rt query =
     (if \<not> truthy (fq_owner query) \<or> \<not> truthy (fq_repo query) \<or> \<not> truthy (fq_path query)
      then respond (json_response (ErrorBody ''owner, repo, and path are required'') 400)
      else
        let owner = string_of (fq_owner query); repo = string_of (fq_repo query);
            path = string_of (fq_path query);
            ref = (if truthy (fq_ref query) then fq_ref query else None)
        in
        bind (await (GetContent owner repo path ref) (repos_getContent oct owner repo path ref))
          (\<lambda>content.
        case content of
          Listing entries \<Rightarrow> respond (json_response (ErrorBody ''Not a file'') 400)
        | Entry file \<Rightarrow>
            if entry_type file \<noteq> ''file''
            then respond (json_response (ErrorBody ''Not a file'') 400)
            else respond (json_response
                   (FileResponse (base64_to_utf8 rt (entry_content file)) (entry_sha file)
                      (entry_name file) (entry_path file)) 200)))"

text \<open>The \<^verbatim>\<open>catch\<close> block of \<^verbatim>\<open>src/app/api/repo/file/route.ts\<close>, lines 56 to 77.\<close>

definition file_GET_catch :: "request_error \<Rightarrow> http_response" where
  "file_GET_catch error =
     (if err_status error = Some 404
      then json_response (ErrorBody ''File not found'') 404
      else if err_status error = Some 403
      then json_response
             (ErrorBody ''Rate limit exceeded. Consider adding a GITHUB_TOKEN to .env.local'') 403
      else json_response (ErrorBody ''Failed to fetch file content'') 500)"

definition file_GET ::
  "'w octokit \<Rightarrow> runtime \<Rightarrow> file_query \<Rightarrow> 'w \<Rightarrow> http_response \<times> call list \<times> 'w" where
  "file_GET oct rt query = try_catch (file_GET_try oct rt query) file_GET_catch"

text \<open>The \<^verbatim>\<open>catch\<close> block of \<^verbatim>\<open>src/unnamed/part_000\<close>, lines 56 to 92.\<close>

definition file_GET_catch_part_000 :: "request_error \<Rightarrow> http_response" where
  "file_GET_catch_part_000 error =
     (if err_status error = Some 401
      then json_response (ErrorBody ''Unauthorized or insufficient scope. Check GITHUB_TOKEN.'') 401
      else if err_status error = Some 403
      then (if rate_limit_signal error
            then json_response (ErrorBody ''Rate limit exceeded. Add or adjust GITHUB_TOKEN.'') 403
            else json_response
                   (ErrorBody ''Unauthorized or insufficient scope. Check GITHUB_TOKEN.'') 403)
      else if err_status error = Some 404
      then json_response (ErrorBody ''Repo or path not found.'') 404
      else json_response (ErrorBody ''Failed to fetch file content'') 500)"

definition file_GET_part_000 ::
  "'w octokit \<Rightarrow> runtime \<Rightarrow> file_query \<Rightarrow> 'w \<Rightarrow> http_response \<times> call list \<times> 'w" where
  "file_GET_part_000 oct rt query = try_catch (file_GET_try oct rt query) file_GET_catch_part_000"

section \<open>A provider, a runtime and requests for the examples\<close>

definition demo_entry :: content_entry where
  "demo_entry = \<lparr>entry_type = ''file'', entry_sha = ''abc123'', entry_name = ''guide.md'',
     entry_path = ''docs/guide.md'', entry_content = ''SGVsbG8=''\<rparr>"

definition demo_tree :: "tree_item list" where
  "demo_tree =
     [\<lparr>item_type = Some ''blob'', item_path = Some ''docs/guide.md''\<rparr>,
      \<lparr>item_type = Some ''tree'', item_path = Some ''docs''\<rparr>,
      \<lparr>item_type = Some ''blob'', item_path = Some ''README.markdown''\<rparr>,
      \<lparr>item_type = Some ''blob'', item_path = Some ''src/app.ts''\<rparr>]"

text \<open>
  A provider that answers every call; its state counts the calls. The path \<^verbatim>\<open>docs\<close> is a
  directory, every other path the file \<^const>\<open>demo_entry\<close>.
\<close>

definition demo_octokit :: "nat octokit" where
  "demo_octokit =
     \<lparr>repos_get = (\<lambda>owner repo w. (Inr ''main'', Suc w)),
      repos_getContent = (\<lambda>owner repo path ref w.
        (if path = ''docs'' then Inr (Listing [demo_entry]) else Inr (Entry demo_entry), Suc w)),
      git_getRef = (\<lambda>owner repo ref w. (Inr ''c0ffee'', Suc w)),
      git_getTree = (\<lambda>owner repo sha recursive w. (Inr demo_tree, Suc w)),
      git_createRef = (\<lambda>owner repo ref sha w. (Inr (), Suc w)),
      repos_createOrUpdateFileContents =
        (\<lambda>owner repo path message content branch sha w. (Inr (), Suc w)),
      pulls_create = (\<lambda>owner repo title body head base w.
        (Inr \<lparr>pr_html_url = ''https://github.com/acme/handbook/pull/7'', pr_number = 7\<rparr>,
         Suc w))\<rparr>"

definition demo_runtime :: runtime where
  "demo_runtime =
     \<lparr>base64_to_utf8 = (\<lambda>s. if s = ''SGVsbG8='' then ''Hello'' else []),
      utf8_to_base64 = (\<lambda>s. if s = ''Hello!'' then ''SGVsbG8h'' else []),
      date_toISOString = ''2024-01-15T10:30:45.123Z''\<rparr>"

text \<open>A publish request for \<^verbatim>\<open>docs/guide.md\<close> of \<^verbatim>\<open>acme/handbook\<close>, edited from blob \<^verbatim>\<open>baseSha\<close>.\<close>

definition demo_request :: "string \<Rightarrow> CreatePRRequest" where
  "demo_request baseSha =
     \<lparr>rq_owner = Some ''acme'', rq_repo = Some ''handbook'', rq_path = Some ''docs/guide.md'',
      rq_baseBranch = None, rq_baseSha = Some baseSha, rq_markdown = Some ''Hello!'',
      rq_prTitle = None, rq_prBody = None\<rparr>"

definition conflict_error :: request_error where
  "conflict_error =
     \<lparr>err_status = Some 409, err_ratelimit_remaining = None,
      err_message = Some ''docs/guide.md does not match abc123''\<rparr>"

definition rate_limit_error :: request_error where
  "rate_limit_error =
     \<lparr>err_status = Some 403, err_ratelimit_remaining = None,
      err_message = Some ''API rate limit exceeded for 203.0.113.7''\<rparr>"

text \<open>The provider rejects the commit with 409.\<close>

definition commit_conflict_octokit :: "nat octokit" where
  "commit_conflict_octokit =
     demo_octokit\<lparr>repos_createOrUpdateFileContents :=
       (\<lambda>owner repo path message content branch sha w. (Inl conflict_error, Suc w))\<rparr>"

text \<open>The provider throttles the content fetch.\<close>

definition rate_limited_octokit :: "nat octokit" where
  "rate_limited_octokit =
     demo_octokit\<lparr>repos_getContent := (\<lambda>owner repo path ref w. (Inl rate_limit_error, Suc w))\<rparr>"

text \<open>The provider lists one path twice.\<close>

definition duplicate_octokit :: "nat octokit" where
  "duplicate_octokit =
     demo_octokit\<lparr>git_getTree := (\<lambda>owner repo sha recursive w.
       (Inr [\<lparr>item_type = Some ''blob'', item_path = Some ''README.md''\<rparr>,
             \<lparr>item_type = Some ''blob'', item_path = Some ''README.md''\<rparr>], Suc w))\<rparr>"

section \<open>Facts about the string functions\<close>

lemma js_includes_iff: "js_includes s sub \<longleftrightarrow> (\<exists>pre post. s = pre @ sub @ post)"
proof (induction s)
  case Nil
  then show ?case by auto
next
  case (Cons c cs)
  show ?case
  proof
    assume "js_includes (c # cs) sub"
    then consider "prefix sub (c # cs)" | "js_includes cs sub" by auto
    then show "\<exists>pre post. c # cs = pre @ sub @ post"
    proof cases
      case 1
      then obtain post where "c # cs = sub @ post" by (auto simp: prefix_def)
      then have "c # cs = [] @ sub @ post" by simp
      then show ?thesis by blast
    next
      case 2
      with Cons.IH obtain pre post where "cs = pre @ sub @ post" by blast
      then have "c # cs = (c # pre) @ sub @ post" by simp
      then show ?thesis by blast
    qed
  next
    assume "\<exists>pre post. c # cs = pre @ sub @ post"
    then obtain pre post where eq: "c # cs = pre @ sub @ post" by blast
    show "js_includes (c # cs) sub"
    proof (cases pre)
      case Nil
      with eq have "prefix sub (c # cs)" by (simp add: prefix_def)
      then show ?thesis by simp
    next
      case (Cons d pre')
      with eq have "cs = pre' @ sub @ post" by simp
      with Cons.IH have "js_includes cs sub" by blast
      then show ?thesis by simp
    qed
  qed
qed

lemma toLowerCase_char_class:
  "slug_class c \<Longrightarrow> toLowerCase_char c \<in> set (lower_letters @ digit_chars @ ''-'')"
  unfolding slug_class_def toLowerCase_char_def upper_letters_def lower_letters_def digit_chars_def
  by auto

lemma path_slug_per_char:
  "path_slug path = take 40 (concat (map (\<lambda>c. if c = CHR ''/'' then ''-''
       else if slug_class c then [toLowerCase_char c] else []) path))"
proof -
  have "toLowerCase (remove_non_slug (replace_slashes p)) =
      concat (map (\<lambda>c. if c = CHR ''/'' then ''-''
       else if slug_class c then [toLowerCase_char c] else []) p)" for p
    by (induction p)
       (simp_all add: toLowerCase_def remove_non_slug_def replace_slashes_def slug_class_def
          toLowerCase_char_def upper_letters_def lower_letters_def digit_chars_def)
  then show ?thesis by (simp add: path_slug_def)
qed

lemma path_slug_chars: "set (path_slug path) \<subseteq> set (lower_letters @ digit_chars @ ''-'')"
proof
  fix x assume "x \<in> set (path_slug path)"
  then have "x \<in> set (toLowerCase (remove_non_slug (replace_slashes path)))"
    unfolding path_slug_def by (rule in_set_takeD)
  then obtain c where "slug_class c" "x = toLowerCase_char c"
    by (auto simp: toLowerCase_def remove_non_slug_def)
  then show "x \<in> set (lower_letters @ digit_chars @ ''-'')"
    using toLowerCase_char_class by simp
qed

lemma path_slug_length: "length (path_slug path) \<le> 40"
  by (simp add: path_slug_def)

lemma path_slug_empty_iff:
  "path_slug path = [] \<longleftrightarrow>
     set path \<inter> set (lower_letters @ upper_letters @ digit_chars @ ''/-'') = {}"
proof -
  have "path_slug path = [] \<longleftrightarrow> filter slug_class (replace_slashes path) = []"
    by (simp add: path_slug_def toLowerCase_def remove_non_slug_def)
  also have "\<dots> \<longleftrightarrow> (\<forall>c\<in>set path. c \<noteq> CHR ''/'' \<and> \<not> slug_class c)"
    by (auto simp: filter_empty_conv replace_slashes_def slug_class_def)
  also have "\<dots> \<longleftrightarrow> set path \<inter> set (lower_letters @ upper_letters @ digit_chars @ ''/-'') = {}"
    by (auto simp: slug_class_def)
  finally show ?thesis .
qed

lemma all_digits_keep: "all_digits s \<Longrightarrow> remove_colons_hyphens s = s"
  unfolding all_digits_def remove_colons_hyphens_def digit_chars_def
  by (induction s) auto

lemma all_digits_no_sep:
  "all_digits s \<Longrightarrow>
     CHR ''.'' \<notin> set s \<and> CHR ''T'' \<notin> set s \<and> (\<forall>c\<in>set s. \<not> line_terminator c)"
  unfolding all_digits_def digit_chars_def line_terminator_def
  by (induction s) auto

lemma remove_fraction_at_dot:
  assumes "CHR ''.'' \<notin> set pre" "rest \<noteq> []" "\<forall>c\<in>set rest. \<not> line_terminator c"
  shows "remove_fraction (pre @ CHR ''.'' # rest) = pre"
  using assms
proof (induction pre)
  case Nil
  then obtain d ds where r: "rest = d # ds" by (cases rest) auto
  with Nil have "dropWhile (\<lambda>x. \<not> line_terminator x) ds = []" by simp
  with Nil r show ?case by simp
next
  case (Cons c pre)
  then have "c \<noteq> CHR ''.''" by auto
  then show ?case using Cons by (cases pre) auto
qed

lemma replace_first_T_at:
  "CHR ''T'' \<notin> set pre \<Longrightarrow> replace_first_T (pre @ CHR ''T'' # rest) = pre @ CHR ''-'' # rest"
  by (induction pre) auto

lemma compact_timestamp_iso:
  assumes "all_digits yyyy" "all_digits mm" "all_digits dd" "all_digits hh" "all_digits mi"
    "all_digits ss" "all_digits fff"
  shows "compact_timestamp (yyyy @ ''-'' @ mm @ ''-'' @ dd @ ''T'' @ hh @ '':'' @ mi @ '':'' @ ss
            @ ''.'' @ fff @ ''Z'') = yyyy @ mm @ dd @ ''-'' @ hh @ mi @ ss"
proof -
  let ?date = "yyyy @ mm @ dd" and ?time = "hh @ mi @ ss"
  have 1: "remove_colons_hyphens (yyyy @ ''-'' @ mm @ ''-'' @ dd @ ''T'' @ hh @ '':'' @ mi @ '':''
       @ ss @ ''.'' @ fff @ ''Z'') = (?date @ ''T'' @ ?time) @ CHR ''.'' # (fff @ ''Z'')"
    using assms
    by (simp add: remove_colons_hyphens_def all_digits_keep [unfolded remove_colons_hyphens_def])
  have 2: "remove_fraction ((?date @ ''T'' @ ?time) @ CHR ''.'' # (fff @ ''Z'')) = ?date @ ''T'' @ ?time"
  proof (rule remove_fraction_at_dot)
    show "CHR ''.'' \<notin> set (?date @ ''T'' @ ?time)"
      using assms by (simp add: all_digits_no_sep)
    show "fff @ ''Z'' \<noteq> []" by simp
    show "\<forall>c\<in>set (fff @ ''Z''). \<not> line_terminator c"
      using all_digits_no_sep [OF assms(7)] by (simp add: line_terminator_def)
  qed
  have 3: "replace_first_T (?date @ CHR ''T'' # ?time) = ?date @ CHR ''-'' # ?time"
    using assms by (intro replace_first_T_at) (simp add: all_digits_no_sep)
  show ?thesis unfolding compact_timestamp_def 1 2 using 3 by simp
qed

section \<open>Branch names\<close>

text \<open>
  Claim C5, as the specification words it: the branch name is \<^verbatim>\<open>docs/\<close>, then the path
  lowercased, stripped of every non-alphanumeric character and cut to 40 characters, then
  the time stamp. The source does not strip every non-alphanumeric character: it first
  turns each slash into a hyphen and then keeps hyphens. For \<^verbatim>\<open>docs/Getting Started.md\<close>
  the slug is \<^verbatim>\<open>docs-gettingstartedmd\<close>, not \<^verbatim>\<open>docsgettingstartedmd\<close>.
\<close>

theorem path_slug_is_not_slugify_spec:
  "path_slug ''docs/Getting Started.md'' \<noteq> slugify_spec ''docs/Getting Started.md''"
  by code_simp

text \<open>
  Claim C5, amended. For every path, and every clock reading
  \<^verbatim>\<open>YYYY-MM-DDTHH:mm:ss.sssZ\<close>, the branch name is \<^verbatim>\<open>docs/\<close>, the slug, a hyphen and the
  15 characters \<^verbatim>\<open>YYYYMMDD-HHmmss\<close>. The slug is the first 40 characters of the path in
  which each slash has become a hyphen, each ASCII letter its lower case, digits and
  hyphens stay and every other character is dropped; so it consists of \<^verbatim>\<open>a-z\<close>,
  \<^verbatim>\<open>0-9\<close> and \<^verbatim>\<open>-\<close> only. For \<^verbatim>\<open>docs/Getting Started.md\<close> it is the 21 characters
  \<^verbatim>\<open>docs-gettingstartedmd\<close>.
\<close>

theorem createBranchSlug_shape:
  assumes "all_digits yyyy" "length yyyy = 4" "all_digits mm" "length mm = 2"
    and "all_digits dd" "length dd = 2" "all_digits hh" "length hh = 2"
    and "all_digits mi" "length mi = 2" "all_digits ss" "length ss = 2" "all_digits fff"
    and "now = yyyy @ ''-'' @ mm @ ''-'' @ dd @ ''T'' @ hh @ '':'' @ mi @ '':'' @ ss @ ''.'' @ fff @ ''Z''"
  shows "createBranchSlug path now =
           ''docs/'' @ path_slug path @ ''-'' @ yyyy @ mm @ dd @ ''-'' @ hh @ mi @ ss
       \<and> length (compact_timestamp now) = 15
       \<and> path_slug path = take 40 (concat (map (\<lambda>c. if c = CHR ''/'' then ''-''
            else if slug_class c then [toLowerCase_char c] else []) path))
       \<and> length (path_slug path) \<le> 40
       \<and> set (path_slug path) \<subseteq> set (lower_letters @ digit_chars @ ''-'')
       \<and> path_slug ''docs/Getting Started.md'' = ''docs-gettingstartedmd''"
proof -
  have ts: "compact_timestamp now = yyyy @ mm @ dd @ ''-'' @ hh @ mi @ ss"
    unfolding assms(14) using assms(1,3,5,7,9,11,13) by (rule compact_timestamp_iso)
  then have "createBranchSlug path now =
      ''docs/'' @ path_slug path @ ''-'' @ yyyy @ mm @ dd @ ''-'' @ hh @ mi @ ss"
    by (simp add: createBranchSlug_def)
  moreover have "length (compact_timestamp now) = 15"
    using assms(2,4,6,8,10,12) by (simp add: ts)
  moreover have "path_slug ''docs/Getting Started.md'' = ''docs-gettingstartedmd''"
    by code_simp
  ultimately show ?thesis
    using path_slug_per_char [of path] path_slug_length [of path] path_slug_chars [of path]
    by blast
qed

theorem createBranchSlug_shape_witness:
  "list_all all_digits [''2024'', ''01'', ''15'', ''10'', ''30'', ''45'', ''123'']
   \<and> createBranchSlug ''docs/Getting Started.md'' ''2024-01-15T10:30:45.123Z'' =
       ''docs/docs-gettingstartedmd-20240115-103045''
   \<and> length (compact_timestamp ''2024-01-15T10:30:45.123Z'') = 15"
proof -
  have fields: "all_digits ''2024''" "length ''2024'' = 4" "all_digits ''01''" "length ''01'' = 2"
    "all_digits ''15''" "length ''15'' = 2" "all_digits ''10''" "length ''10'' = 2"
    "all_digits ''30''" "length ''30'' = 2" "all_digits ''45''" "length ''45'' = 2"
    "all_digits ''123''"
    by (simp_all add: all_digits_def digit_chars_def)
  note shape = createBranchSlug_shape [OF fields refl, of "''docs/Getting Started.md''"]
  from shape have name: "createBranchSlug ''docs/Getting Started.md''
      (''2024'' @ ''-'' @ ''01'' @ ''-'' @ ''15'' @ ''T'' @ ''10'' @ '':'' @ ''30'' @ '':'' @ ''45''
         @ ''.'' @ ''123'' @ ''Z'') =
      ''docs/'' @ path_slug ''docs/Getting Started.md'' @ ''-'' @ ''2024'' @ ''01'' @ ''15'' @ ''-''
         @ ''10'' @ ''30'' @ ''45''"
    by (rule conjunct1)
  from shape have slug: "path_slug ''docs/Getting Started.md'' = ''docs-gettingstartedmd''"
    by blast
  from shape have width: "length (compact_timestamp
      (''2024'' @ ''-'' @ ''01'' @ ''-'' @ ''15'' @ ''T'' @ ''10'' @ '':'' @ ''30'' @ '':'' @ ''45''
         @ ''.'' @ ''123'' @ ''Z'')) = 15"
    by blast
  show ?thesis using fields name width by (simp add: slug)
qed

text \<open>
  Claim C10. A path with no ASCII letter, digit, slash or hyphen has the empty slug, and
  its branch name is \<^verbatim>\<open>docs/-\<close> followed by the time stamp; \<^verbatim>\<open>###\<close> is such a path.
\<close>

theorem empty_slug_branch_name:
  assumes "set path \<inter> set (lower_letters @ upper_letters @ digit_chars @ ''/-'') = {}"
  shows "path_slug path = [] \<and> createBranchSlug path now = ''docs/-'' @ compact_timestamp now"
  using assms by (simp add: path_slug_empty_iff createBranchSlug_def)

theorem empty_slug_branch_name_witness:
  "set ''###'' \<inter> set (lower_letters @ upper_letters @ digit_chars @ ''/-'') = {}
   \<and> path_slug ''###'' = []
   \<and> createBranchSlug ''###'' ''2024-01-15T10:30:45.123Z'' = ''docs/-20240115-103045''"
proof -
  have disjoint: "set ''###'' \<inter> set (lower_letters @ upper_letters @ digit_chars @ ''/-'') = {}"
    by (simp add: lower_letters_def upper_letters_def digit_chars_def)
  have "compact_timestamp ''2024-01-15T10:30:45.123Z'' = ''20240115-103045''"
    by code_simp
  with disjoint empty_slug_branch_name [OF disjoint, of "''2024-01-15T10:30:45.123Z''"]
  show ?thesis by simp
qed

section \<open>Facts about the control flow\<close>

lemma bind_Normal:
  "m w = (Normal a, l, w') \<Longrightarrow> bind m k w = (case k a w' of (c, l', w'') \<Rightarrow> (c, l @ l', w''))"
  by (simp add: bind_def)

lemma await_Inr: "f w = (Inr a, w') \<Longrightarrow> await c f w = (Normal a, [c], w')"
  by (simp add: await_def)

lemma await_Inl: "f w = (Inl e, w') \<Longrightarrow> await c f w = (Throw e, [c], w')"
  by (simp add: await_def)

lemma bind_Throw: "m w = (Throw e, l, w') \<Longrightarrow> bind m k w = (Throw e, l, w')"
  by (simp add: bind_def)

lemma bind_cases:
  assumes "bind m k w = (c, l, w')"
  shows "(\<exists>a l1 w1 l2. m w = (Normal a, l1, w1) \<and> k a w1 = (c, l2, w') \<and> l = l1 @ l2)
       \<or> (\<exists>r. m w = (Return r, l, w') \<and> c = Return r)
       \<or> (\<exists>e. m w = (Throw e, l, w') \<and> c = Throw e)"
  using assms by (auto simp: bind_def split: prod.splits completion.splits)

lemma bind_await_cases:
  assumes "bind (await x f) k w = (c, l, w')"
  shows "(\<exists>a w1 l2. f w = (Inr a, w1) \<and> k a w1 = (c, l2, w') \<and> l = x # l2)
       \<or> (\<exists>e. f w = (Inl e, w') \<and> c = Throw e \<and> l = [x])"
  using assms by (auto simp: bind_def await_def split: prod.splits completion.splits sum.splits)

lemma try_catch_cases:
  assumes "try_catch blk handler w = (response, l, w')"
  shows "\<exists>c. blk w = (c, l, w') \<and>
          (case c of Normal r \<Rightarrow> response = r | Return r \<Rightarrow> response = r
           | Throw e \<Rightarrow> response = handler e)"
  using assms by (auto simp: try_catch_def split: prod.splits completion.splits)

lemma resolveBranch_cases:
  assumes "resolveBranch oct owner repo branch w = (c, l, w1)"
  shows "(truthy branch \<and> c = Normal (string_of branch) \<and> l = [] \<and> w1 = w) \<or>
         (\<not> truthy branch \<and> l = [ReposGet owner repo] \<and>
           ((\<exists>b. repos_get oct owner repo w = (Inr b, w1) \<and> c = Normal b) \<or>
            (\<exists>e. repos_get oct owner repo w = (Inl e, w1) \<and> c = Throw e)))"
  using assms
  by (auto simp: resolveBranch_def normal_def await_def split: if_splits prod.splits sum.splits)

section \<open>Running the examples\<close>

lemma demo_names:
  "createBranchSlug ''docs/guide.md'' ''2024-01-15T10:30:45.123Z'' =
     ''docs/docs-guidemd-20240115-103045''"
  by code_simp

lemmas run_defs = POST_def try_catch_def POST_try_def POST_steps_3_to_6_def bind_def await_def
  respond_def normal_def resolveBranch_def Let_def

lemmas demo_defs = demo_request_def demo_octokit_def demo_entry_def demo_runtime_def
  commit_conflict_octokit_def rate_limited_octokit_def duplicate_octokit_def demo_names


lemma demo_POST_try_rate_limited:
  "POST_try rate_limited_octokit demo_runtime (Inr (demo_request ''abc123'')) 0 =
     (Throw rate_limit_error,
      [ReposGet ''acme'' ''handbook'',
       GetContent ''acme'' ''handbook'' ''docs/guide.md'' (Some ''main'')], 2)"
  by (simp add: run_defs demo_defs)

lemma demo_steps_conflict:
  "POST_steps_3_to_6 commit_conflict_octokit demo_runtime ''acme'' ''handbook''
       ''docs/guide.md'' ''Hello!'' None None ''main'' ''abc123'' 2 =
     (Throw conflict_error,
      [GetRef ''acme'' ''handbook'' ''heads/main'',
       CreateRef ''acme'' ''handbook'' ''refs/heads/docs/docs-guidemd-20240115-103045'' ''c0ffee'',
       CreateOrUpdateFileContents ''acme'' ''handbook'' ''docs/guide.md''
         ''docs: update docs/guide.md via editor'' ''SGVsbG8h''
         ''docs/docs-guidemd-20240115-103045'' ''abc123''], 5)"
  by (simp add: run_defs demo_defs)

section \<open>Publishing\<close>

text \<open>
  A request with every required field, a branch that resolves and a path that is a file
  reaches the comparison of line 83: the handler either answers the conflict or goes on
  to steps 3 to 6 with the fetched SHA.
\<close>

lemma POST_try_to_comparison:
  assumes "owner \<noteq> []" "repo \<noteq> []" "path \<noteq> []" "baseSha \<noteq> []" "markdown \<noteq> []"
    and "resolveBranch oct owner repo baseBranch w = (Normal branch, l, w1)"
    and "repos_getContent oct owner repo path (Some branch) w1 = (Inr (Entry file), w2)"
    and "entry_type file = ''file''"
  shows "POST_try oct rt (Inr \<lparr>rq_owner = Some owner, rq_repo = Some repo, rq_path = Some path,
             rq_baseBranch = baseBranch, rq_baseSha = Some baseSha, rq_markdown = Some markdown,
             rq_prTitle = prTitle, rq_prBody = prBody\<rparr>) w =
           (if entry_sha file \<noteq> baseSha
            then (Return (json_response (ConflictResponse ''File changed upstream'' (entry_sha file)
                    (base64_to_utf8 rt (entry_content file))) 409),
                  l @ [GetContent owner repo path (Some branch)], w2)
            else (case POST_steps_3_to_6 oct rt owner repo path markdown prTitle prBody branch
                         (entry_sha file) w2 of
                    (c, l3, w') \<Rightarrow> (c, l @ GetContent owner repo path (Some branch) # l3, w')))"
  using assms
  by (simp add: POST_try_def bind_Normal await_Inr respond_def Let_def split: prod.splits)



text \<open>
  Claim C3, as stated: every publish request whose \<^verbatim>\<open>baseSha\<close> equals the upstream blob
  SHA succeeds when every provider call succeeds. The guard of line 51 comes first: a
  request whose \<^verbatim>\<open>markdown\<close> is the empty string is answered 400 before any provider
  call, although its \<^verbatim>\<open>baseSha\<close> is the SHA the provider holds for the file and the provider
  answers every call.
\<close>

theorem POST_empty_markdown_is_bad_request:
  "POST demo_octokit demo_runtime
     (Inr \<lparr>rq_owner = Some ''acme'', rq_repo = Some ''handbook'', rq_path = Some ''docs/guide.md'',
            rq_baseBranch = None, rq_baseSha = Some ''abc123'', rq_markdown = Some [],
            rq_prTitle = None, rq_prBody = None\<rparr>) 0 =
     (json_response (ErrorBody ''owner, repo, path, baseSha, and markdown are required'') 400,
      [], 0)
   \<and> repos_getContent demo_octokit ''acme'' ''handbook'' ''docs/guide.md'' (Some ''main'') 1 =
       (Inr (Entry demo_entry), 2)
   \<and> entry_sha demo_entry = ''abc123''"
  by (simp add: POST_def try_catch_def POST_try_def respond_def demo_octokit_def demo_entry_def)

text \<open>
  Claim C3, amended. When the request has a non-empty \<^verbatim>\<open>owner\<close>, \<^verbatim>\<open>repo\<close>, \<^verbatim>\<open>path\<close>,
  \<^verbatim>\<open>baseSha\<close> and \<^verbatim>\<open>markdown\<close>, the path is a file whose fetched SHA equals \<^verbatim>\<open>baseSha\<close>,
  and every provider call succeeds, the handler answers 200 with \<^verbatim>\<open>prUrl\<close> and \<^verbatim>\<open>prNumber\<close>
  the \<^verbatim>\<open>html_url\<close> and \<^verbatim>\<open>number\<close> of what \<^verbatim>\<open>pulls.create\<close> resolved to.
\<close>

theorem POST_success:
  assumes "owner \<noteq> []" "repo \<noteq> []" "path \<noteq> []" "baseSha \<noteq> []" "markdown \<noteq> []"
    and "resolveBranch oct owner repo baseBranch w = (Normal branch, l, w1)"
    and "repos_getContent oct owner repo path (Some branch) w1 = (Inr (Entry file), w2)"
    and "entry_type file = ''file''"
    and "entry_sha file = baseSha"
    and "git_getRef oct owner repo (''heads/'' @ branch) w2 = (Inr commit, w3)"
    and "newBranchName = createBranchSlug path (date_toISOString rt)"
    and "git_createRef oct owner repo (''refs/heads/'' @ newBranchName) commit w3 = (Inr (), w4)"
    and "repos_createOrUpdateFileContents oct owner repo path
           (''docs: update '' @ path @ '' via editor'') (utf8_to_base64 rt markdown)
           newBranchName baseSha w4 = (Inr (), w5)"
    and "title = (if truthy prTitle then string_of prTitle else ''Update '' @ path)"
    and "body_text = (if truthy prBody then string_of prBody else ''Edited via Notion-like editor'')"
    and "pulls_create oct owner repo title body_text newBranchName branch w5 = (Inr pr, w6)"
  shows "POST oct rt (Inr \<lparr>rq_owner = Some owner, rq_repo = Some repo, rq_path = Some path,
             rq_baseBranch = baseBranch, rq_baseSha = Some baseSha, rq_markdown = Some markdown,
             rq_prTitle = prTitle, rq_prBody = prBody\<rparr>) w =
           (json_response (CreatePRResponse (pr_html_url pr) (pr_number pr)) 200,
            l @ [GetContent owner repo path (Some branch),
                 GetRef owner repo (''heads/'' @ branch),
                 CreateRef owner repo (''refs/heads/'' @ newBranchName) commit,
                 CreateOrUpdateFileContents owner repo path
                   (''docs: update '' @ path @ '' via editor'') (utf8_to_base64 rt markdown)
                   newBranchName baseSha,
                 PullsCreate owner repo title body_text newBranchName branch], w6)"
proof -
  have "POST_steps_3_to_6 oct rt owner repo path markdown prTitle prBody branch baseSha w2 =
      (Return (json_response (CreatePRResponse (pr_html_url pr) (pr_number pr)) 200),
       [GetRef owner repo (''heads/'' @ branch),
        CreateRef owner repo (''refs/heads/'' @ newBranchName) commit,
        CreateOrUpdateFileContents owner repo path
          (''docs: update '' @ path @ '' via editor'') (utf8_to_base64 rt markdown)
          newBranchName baseSha,
        PullsCreate owner repo title body_text newBranchName branch], w6)"
    using assms(10,12,13,16) unfolding assms(11,14,15)
    by (simp add: POST_steps_3_to_6_def bind_Normal await_Inr respond_def Let_def
        cong: if_cong split del: if_split)
  then show ?thesis
    using assms(9) by (simp add: POST_def try_catch_def POST_try_to_comparison [OF assms(1-8)])
qed

theorem POST_success_witness:
  "POST demo_octokit demo_runtime (Inr (demo_request ''abc123'')) 0 =
     (json_response (CreatePRResponse ''https://github.com/acme/handbook/pull/7'' 7) 200,
      [ReposGet ''acme'' ''handbook'',
       GetContent ''acme'' ''handbook'' ''docs/guide.md'' (Some ''main''),
       GetRef ''acme'' ''handbook'' ''heads/main'',
       CreateRef ''acme'' ''handbook'' ''refs/heads/docs/docs-guidemd-20240115-103045'' ''c0ffee'',
       CreateOrUpdateFileContents ''acme'' ''handbook'' ''docs/guide.md''
         ''docs: update docs/guide.md via editor'' ''SGVsbG8h''
         ''docs/docs-guidemd-20240115-103045'' ''abc123'',
       PullsCreate ''acme'' ''handbook'' ''Update docs/guide.md'' ''Edited via Notion-like editor''
         ''docs/docs-guidemd-20240115-103045'' ''main''], 6)"
proof -
  have name: "createBranchSlug ''docs/guide.md'' ''2024-01-15T10:30:45.123Z'' =
      ''docs/docs-guidemd-20240115-103045''"
    by code_simp
  show ?thesis
    using POST_success [of "''acme''" "''handbook''" "''docs/guide.md''" "''abc123''" "''Hello!''"
      demo_octokit None 0 "''main''" "[ReposGet ''acme'' ''handbook'']" 1 demo_entry 2
      "''c0ffee''" 3 "''docs/docs-guidemd-20240115-103045''" demo_runtime 4 5
      "''Update docs/guide.md''" None "''Edited via Notion-like editor''" None
      "\<lparr>pr_html_url = ''https://github.com/acme/handbook/pull/7'', pr_number = 7\<rparr>" 6]
    by (simp add: demo_request_def demo_octokit_def demo_entry_def demo_runtime_def
      resolveBranch_def await_def name)
qed






section \<open>Errors of a publish\<close>

text \<open>
  Claim C4. An error thrown inside the \<^verbatim>\<open>try\<close> block of a publish (a provider call that
  is rejected, or \<^verbatim>\<open>request.json()\<close> failing) is answered by its status:
  401 with 401 \<^verbatim>\<open>Unauthorized or insufficient scope\<close> (Unauthorized);
  403 with 429 \<^verbatim>\<open>Rate limit exceeded\<close> (RateLimited) when the header
  \<^verbatim>\<open>x-ratelimit-remaining\<close> is \<^verbatim>\<open>0\<close> or the message contains \<^verbatim>\<open>rate limit\<close>, and with
  403 \<^verbatim>\<open>Unauthorized or insufficient scope\<close> (Unauthorized) otherwise;
  404 with 404 \<^verbatim>\<open>Repo or path not found\<close> (NotFound);
  409 with 409 \<^verbatim>\<open>File changed upstream\<close> (Conflict);
  anything else with 500 \<^verbatim>\<open>Failed to create pull request\<close> (Unknown).
\<close>

theorem POST_error_mapping:
  assumes "POST_try oct rt parsed w = (Throw e, calls, w')"
  shows "POST oct rt parsed w =
    ((if err_status e = Some 401
      then json_response (ErrorBody ''Unauthorized or insufficient scope'') 401
      else if err_status e = Some 403 \<and>
              (err_ratelimit_remaining e = Some ''0'' \<or>
               (\<exists>m pre post. err_message e = Some m \<and> m = pre @ ''rate limit'' @ post))
      then json_response (ErrorBody ''Rate limit exceeded'') 429
      else if err_status e = Some 403
      then json_response (ErrorBody ''Unauthorized or insufficient scope'') 403
      else if err_status e = Some 404
      then json_response (ErrorBody ''Repo or path not found'') 404
      else if err_status e = Some 409
      then json_response (ErrorBody ''File changed upstream'') 409
      else json_response (ErrorBody ''Failed to create pull request'') 500), calls, w')"
proof -
  define signal where "signal \<longleftrightarrow>
      (err_ratelimit_remaining e = Some ''0'' \<or>
       (\<exists>m pre post. err_message e = Some m \<and> m = pre @ ''rate limit'' @ post))"
  have "rate_limit_signal e \<longleftrightarrow> signal"
    unfolding signal_def
    by (cases "err_message e") (auto simp: rate_limit_signal_def js_includes_iff)
  then have "POST_catch e =
     (if err_status e = Some 401
      then json_response (ErrorBody ''Unauthorized or insufficient scope'') 401
      else if err_status e = Some 403 \<and> signal
      then json_response (ErrorBody ''Rate limit exceeded'') 429
      else if err_status e = Some 403
      then json_response (ErrorBody ''Unauthorized or insufficient scope'') 403
      else if err_status e = Some 404
      then json_response (ErrorBody ''Repo or path not found'') 404
      else if err_status e = Some 409
      then json_response (ErrorBody ''File changed upstream'') 409
      else json_response (ErrorBody ''Failed to create pull request'') 500)"
    by (simp add: POST_catch_def)
  moreover have "POST oct rt parsed w = (POST_catch e, calls, w')"
    using assms by (simp add: POST_def try_catch_def)
  ultimately show ?thesis
    unfolding signal_def by (simp only:)
qed


theorem POST_error_mapping_witness:
  "POST_try rate_limited_octokit demo_runtime (Inr (demo_request ''abc123'')) 0 =
     (Throw rate_limit_error,
      [ReposGet ''acme'' ''handbook'',
       GetContent ''acme'' ''handbook'' ''docs/guide.md'' (Some ''main'')], 2)
   \<and> POST rate_limited_octokit demo_runtime (Inr (demo_request ''abc123'')) 0 =
     (json_response (ErrorBody ''Rate limit exceeded'') 429,
      [ReposGet ''acme'' ''handbook'',
       GetContent ''acme'' ''handbook'' ''docs/guide.md'' (Some ''main'')], 2)"
proof -
  have "js_includes ''API rate limit exceeded for 203.0.113.7'' ''rate limit''"
    by code_simp
  then have "\<exists>m pre post. err_message rate_limit_error = Some m \<and> m = pre @ ''rate limit'' @ post"
    unfolding js_includes_iff rate_limit_error_def by simp
  moreover have "err_status rate_limit_error = Some 403"
    by (simp add: rate_limit_error_def)
  ultimately show ?thesis
    using POST_error_mapping [OF demo_POST_try_rate_limited]
    by (simp only: demo_POST_try_rate_limited) simp
qed

text \<open>
  A rejection of any of the four provider calls of steps 3 to 6 is thrown out of them.
\<close>

lemma POST_steps_3_to_6_rejected:
  fixes oct :: "'w octokit"
  defines "name \<equiv> \<lambda>rt path. createBranchSlug path (date_toISOString rt)"
  shows "git_getRef oct owner repo (''heads/'' @ branch) w = (Inl e, w1) \<Longrightarrow>
           \<exists>l. POST_steps_3_to_6 oct rt owner repo path markdown prTitle prBody branch sha w =
                 (Throw e, l, w1)"
    and "git_getRef oct owner repo (''heads/'' @ branch) w = (Inr commit, w1) \<Longrightarrow>
         git_createRef oct owner repo (''refs/heads/'' @ name rt path) commit w1 = (Inl e, w2) \<Longrightarrow>
           \<exists>l. POST_steps_3_to_6 oct rt owner repo path markdown prTitle prBody branch sha w =
                 (Throw e, l, w2)"
    and "git_getRef oct owner repo (''heads/'' @ branch) w = (Inr commit, w1) \<Longrightarrow>
         git_createRef oct owner repo (''refs/heads/'' @ name rt path) commit w1 = (Inr (), w2) \<Longrightarrow>
         repos_createOrUpdateFileContents oct owner repo path
           (''docs: update '' @ path @ '' via editor'') (utf8_to_base64 rt markdown)
           (name rt path) sha w2 = (Inl e, w3) \<Longrightarrow>
           \<exists>l. POST_steps_3_to_6 oct rt owner repo path markdown prTitle prBody branch sha w =
                 (Throw e, l, w3)"
    and "git_getRef oct owner repo (''heads/'' @ branch) w = (Inr commit, w1) \<Longrightarrow>
         git_createRef oct owner repo (''refs/heads/'' @ name rt path) commit w1 = (Inr (), w2) \<Longrightarrow>
         repos_createOrUpdateFileContents oct owner repo path
           (''docs: update '' @ path @ '' via editor'') (utf8_to_base64 rt markdown)
           (name rt path) sha w2 = (Inr (), w3) \<Longrightarrow>
         pulls_create oct owner repo
           (if truthy prTitle then string_of prTitle else ''Update '' @ path)
           (if truthy prBody then string_of prBody else ''Edited via Notion-like editor'')
           (name rt path) branch w3 = (Inl e, w4) \<Longrightarrow>
           \<exists>l. POST_steps_3_to_6 oct rt owner repo path markdown prTitle prBody branch sha w =
                 (Throw e, l, w4)"
  unfolding name_def
  by (simp_all add: POST_steps_3_to_6_def bind_Normal bind_Throw await_Inr await_Inl Let_def
      cong: if_cong split del: if_split)

text \<open>
  Claim C9. When the comparison of step 2 has passed and one of the later provider calls
  (reading the base reference, creating the reference, the commit, opening the pull
  request) is rejected with status 409, the handler answers 409 with the body
  \<^verbatim>\<open>{error: 'File changed upstream'}\<close>: an \<^const>\<open>ErrorBody\<close>, which has no \<^verbatim>\<open>upstreamSha\<close>
  and no \<^verbatim>\<open>upstreamMarkdown\<close>, unlike the \<^const>\<open>ConflictResponse\<close> of the comparison.
\<close>

theorem late_conflict_carries_no_upstream_state:
  assumes "owner \<noteq> []" "repo \<noteq> []" "path \<noteq> []" "baseSha \<noteq> []" "markdown \<noteq> []"
    and "resolveBranch oct owner repo baseBranch w = (Normal branch, l, w1)"
    and "repos_getContent oct owner repo path (Some branch) w1 = (Inr (Entry file), w2)"
    and "entry_type file = ''file''"
    and "entry_sha file = baseSha"
    and "POST_steps_3_to_6 oct rt owner repo path markdown prTitle prBody branch baseSha w2 =
           (Throw e, l3, w')"
    and "err_status e = Some 409"
  shows "POST oct rt (Inr \<lparr>rq_owner = Some owner, rq_repo = Some repo, rq_path = Some path,
             rq_baseBranch = baseBranch, rq_baseSha = Some baseSha, rq_markdown = Some markdown,
             rq_prTitle = prTitle, rq_prBody = prBody\<rparr>) w =
           (json_response (ErrorBody ''File changed upstream'') 409,
            l @ GetContent owner repo path (Some branch) # l3, w')"
  using assms(9-11)
  by (simp add: POST_def try_catch_def POST_try_to_comparison [OF assms(1-8)] POST_catch_def)


theorem late_conflict_carries_no_upstream_state_witness:
  "POST_steps_3_to_6 commit_conflict_octokit demo_runtime ''acme'' ''handbook'' ''docs/guide.md''
       ''Hello!'' None None ''main'' ''abc123'' 2 =
     (Throw conflict_error,
      [GetRef ''acme'' ''handbook'' ''heads/main'',
       CreateRef ''acme'' ''handbook'' ''refs/heads/docs/docs-guidemd-20240115-103045'' ''c0ffee'',
       CreateOrUpdateFileContents ''acme'' ''handbook'' ''docs/guide.md''
         ''docs: update docs/guide.md via editor'' ''SGVsbG8h''
         ''docs/docs-guidemd-20240115-103045'' ''abc123''], 5)
   \<and> POST commit_conflict_octokit demo_runtime (Inr (demo_request ''abc123'')) 0 =
     (json_response (ErrorBody ''File changed upstream'') 409,
      [ReposGet ''acme'' ''handbook'',
       GetContent ''acme'' ''handbook'' ''docs/guide.md'' (Some ''main''),
       GetRef ''acme'' ''handbook'' ''heads/main'',
       CreateRef ''acme'' ''handbook'' ''refs/heads/docs/docs-guidemd-20240115-103045'' ''c0ffee'',
       CreateOrUpdateFileContents ''acme'' ''handbook'' ''docs/guide.md''
         ''docs: update docs/guide.md via editor'' ''SGVsbG8h''
         ''docs/docs-guidemd-20240115-103045'' ''abc123''], 5)"
proof -
  have resolved: "resolveBranch commit_conflict_octokit ''acme'' ''handbook'' None 0 =
      (Normal ''main'', [ReposGet ''acme'' ''handbook''], 1)"
    by (simp add: run_defs demo_defs)
  have fetched: "repos_getContent commit_conflict_octokit ''acme'' ''handbook'' ''docs/guide.md''
      (Some ''main'') 1 = (Inr (Entry demo_entry), 2)"
    by (simp add: demo_defs)
  have "POST commit_conflict_octokit demo_runtime
      (Inr \<lparr>rq_owner = Some ''acme'', rq_repo = Some ''handbook'', rq_path = Some ''docs/guide.md'',
             rq_baseBranch = None, rq_baseSha = Some ''abc123'', rq_markdown = Some ''Hello!'',
             rq_prTitle = None, rq_prBody = None\<rparr>) 0 =
      (json_response (ErrorBody ''File changed upstream'') 409,
       [ReposGet ''acme'' ''handbook''] @ GetContent ''acme'' ''handbook'' ''docs/guide.md'' (Some ''main'') #
        [GetRef ''acme'' ''handbook'' ''heads/main'',
       CreateRef ''acme'' ''handbook'' ''refs/heads/docs/docs-guidemd-20240115-103045'' ''c0ffee'',
       CreateOrUpdateFileContents ''acme'' ''handbook'' ''docs/guide.md''
         ''docs: update docs/guide.md via editor'' ''SGVsbG8h''
         ''docs/docs-guidemd-20240115-103045'' ''abc123''], 5)"
    by (rule late_conflict_carries_no_upstream_state [OF _ _ _ _ _ resolved fetched _ _
          demo_steps_conflict])
       (simp_all add: demo_entry_def conflict_error_def)
  then show ?thesis
    by (simp add: demo_steps_conflict demo_request_def)
qed

section \<open>Listing\<close>

text \<open>
  A listing that answers with a \<^verbatim>\<open>TreeResponse\<close> resolved its branch, read the reference
  \<^verbatim>\<open>heads/<branch>\<close> and the tree of its commit, and sends the files of that tree.
\<close>

lemma resolveBranch_no_Return:
  "resolveBranch oct owner repo branch w \<noteq> (Return r, l, w1)"
  using resolveBranch_cases [of oct owner repo branch w "Return r" l w1] by auto

lemma tree_GET_listing:
  assumes "tree_GET oct query w = (response, calls, w')"
    and "http_body response = TreeResponse branch files"
  shows "\<exists>l w1 sha w2 tree.
           resolveBranch oct (string_of (tq_owner query)) (string_of (tq_repo query))
             (tq_branch query) w = (Normal branch, l, w1) \<and>
           git_getRef oct (string_of (tq_owner query)) (string_of (tq_repo query))
             (''heads/'' @ branch) w1 = (Inr sha, w2) \<and>
           git_getTree oct (string_of (tq_owner query)) (string_of (tq_repo query)) sha ''1'' w2 =
             (Inr tree, w') \<and>
           files = markdownFiles tree"
proof -
  let ?owner = "string_of (tq_owner query)" and ?repo = "string_of (tq_repo query)"
  from try_catch_cases [OF assms(1) [unfolded tree_GET_def]] obtain c where
    run: "tree_GET_try oct query w = (c, calls, w')"
    and c: "case c of Normal r \<Rightarrow> response = r | Return r \<Rightarrow> response = r
            | Throw e \<Rightarrow> response = tree_GET_catch e"
    by blast
  have not_thrown: "c = Normal response \<or> c = Return response"
    using c assms(2)
    by (cases c) (auto simp: tree_GET_catch_def json_response_def split: if_splits)
  have valid: "\<not> (\<not> truthy (tq_owner query) \<or> \<not> truthy (tq_repo query))"
  proof
    assume "\<not> truthy (tq_owner query) \<or> \<not> truthy (tq_repo query)"
    then have "tree_GET_try oct query w =
        (Return (json_response (ErrorBody ''owner and repo are required'') 400), [], w)"
      unfolding tree_GET_try_def by (simp add: respond_def)
    with run not_thrown assms(2) show False by (auto simp: json_response_def)
  qed
  let ?k2 = "\<lambda>b sha. bind (await (GetTree ?owner ?repo sha ''1'') (git_getTree oct ?owner ?repo sha ''1''))
       (\<lambda>tree. respond (json_response (TreeResponse b (markdownFiles tree)) 200))"
  let ?k1 = "\<lambda>b. bind (await (GetRef ?owner ?repo (''heads/'' @ b))
                (git_getRef oct ?owner ?repo (''heads/'' @ b))) (?k2 b)"
  from valid run have "bind (resolveBranch oct ?owner ?repo (tq_branch query)) ?k1 w = (c, calls, w')"
    unfolding tree_GET_try_def Let_def by simp
  from bind_cases [OF this] not_thrown obtain b l w1 l2 where
    r: "resolveBranch oct ?owner ?repo (tq_branch query) w = (Normal b, l, w1)"
    and k1: "?k1 b w1 = (c, l2, w')"
    by (elim disjE exE conjE) (auto simp: resolveBranch_no_Return)
  from bind_await_cases [OF k1] not_thrown obtain sha w2 l3 where
    g: "git_getRef oct ?owner ?repo (''heads/'' @ b) w1 = (Inr sha, w2)"
    and k2: "?k2 b sha w2 = (c, l3, w')"
    by (elim disjE exE conjE) auto
  from bind_await_cases [OF k2] not_thrown obtain tree w3 l4 where
    t: "git_getTree oct ?owner ?repo sha ''1'' w2 = (Inr tree, w3)"
    and k3: "respond (json_response (TreeResponse b (markdownFiles tree)) 200) w3 = (c, l4, w')"
    by (elim disjE exE conjE) auto
  from k3 not_thrown assms(2) have "w3 = w'" "b = branch" "files = markdownFiles tree"
    by (auto simp: respond_def json_response_def)
  with r g t show ?thesis by blast
qed

lemma is_markdown_blob_iff:
  "is_markdown_blob item \<longleftrightarrow>
     item_type item = Some ''blob'' \<and>
     (\<exists>p. item_path item = Some p \<and> (suffix ''.md'' p \<or> suffix ''.markdown'' p))"
  by (cases "item_path item") (auto simp: is_markdown_blob_def endsWith_def)

lemma set_markdownFiles:
  "set (markdownFiles tree) =
     {p. \<exists>item\<in>set tree. item_type item = Some ''blob'' \<and> item_path item = Some p \<and>
          (suffix ''.md'' p \<or> suffix ''.markdown'' p)}"
proof -
  let ?paths = "{p. \<exists>item\<in>set tree. item_type item = Some ''blob'' \<and> item_path item = Some p \<and>
          (suffix ''.md'' p \<or> suffix ''.markdown'' p)}"
  have "set (markdownFiles tree) =
      (\<lambda>item. string_of (item_path item)) ` {item \<in> set tree. is_markdown_blob item}"
    by (simp add: markdownFiles_def)
  also have "\<dots> = ?paths"
  proof (intro set_eqI iffI)
    fix p
    assume "p \<in> (\<lambda>item. string_of (item_path item)) ` {item \<in> set tree. is_markdown_blob item}"
    then obtain item where "item \<in> set tree" "is_markdown_blob item"
      "p = string_of (item_path item)"
      by auto
    then show "p \<in> ?paths"
      by (auto simp: is_markdown_blob_iff)
  next
    fix p
    assume "p \<in> ?paths"
    then obtain item where item: "item \<in> set tree" "item_type item = Some ''blob''"
      "item_path item = Some p" "suffix ''.md'' p \<or> suffix ''.markdown'' p"
      by auto
    then have "is_markdown_blob item" "p = string_of (item_path item)"
      by (auto simp: is_markdown_blob_iff)
    with item(1)
    show "p \<in> (\<lambda>item. string_of (item_path item)) ` {item \<in> set tree. is_markdown_blob item}"
      by blast
  qed
  finally show ?thesis .
qed

lemma sorted_markdownFiles: "sorted (markdownFiles tree)"
  by (simp add: markdownFiles_def)

lemma distinct_markdownFiles:
  assumes "distinct (map item_path (filter (\<lambda>item. item_type item = Some ''blob'') tree))"
  shows "distinct (markdownFiles tree)"
proof -
  have "filter is_markdown_blob tree =
      filter is_markdown_blob (filter (\<lambda>item. item_type item = Some ''blob'') tree)"
    by (auto simp: is_markdown_blob_iff intro: filter_cong)
  then have "distinct (map item_path (filter is_markdown_blob tree))"
    using assms by (metis distinct_map_filter)
  moreover have "map item_path (filter is_markdown_blob tree) =
      map Some (map (\<lambda>item. string_of (item_path item)) (filter is_markdown_blob tree))"
    by (auto simp: is_markdown_blob_iff)
  ultimately have
    "distinct (map Some (map (\<lambda>item. string_of (item_path item)) (filter is_markdown_blob tree)))"
    by (simp only:)
  then have "distinct (map (\<lambda>item. string_of (item_path item)) (filter is_markdown_blob tree))"
    unfolding distinct_map by (rule conjunct1)
  then show ?thesis by (simp add: markdownFiles_def)
qed

lemma demo_markdownFiles: "markdownFiles demo_tree = [''README.markdown'', ''docs/guide.md'']"
  by code_simp

lemma duplicate_markdownFiles:
  "markdownFiles [\<lparr>item_type = Some ''blob'', item_path = Some ''README.md''\<rparr>,
                  \<lparr>item_type = Some ''blob'', item_path = Some ''README.md''\<rparr>] =
     [''README.md'', ''README.md'']"
  by code_simp

lemma demo_tree_GET:
  "tree_GET demo_octokit
     \<lparr>tq_owner = Some ''acme'', tq_repo = Some ''handbook'', tq_branch = None\<rparr> 0 =
     (json_response (TreeResponse ''main'' [''README.markdown'', ''docs/guide.md'']) 200,
      [ReposGet ''acme'' ''handbook'', GetRef ''acme'' ''handbook'' ''heads/main'',
       GetTree ''acme'' ''handbook'' ''c0ffee'' ''1''], 3)"
  by (simp add: tree_GET_def tree_GET_try_def run_defs demo_defs demo_markdownFiles)

text \<open>
  Claim C6, as stated: for every tree the provider returns, the file list has no
  duplicates. The handler filters, maps and sorts, and never removes a duplicate: a tree
  that lists the blob \<^verbatim>\<open>README.md\<close> twice is answered with \<^verbatim>\<open>README.md\<close> twice.
\<close>

theorem listing_with_duplicates:
  "tree_GET duplicate_octokit
     \<lparr>tq_owner = Some ''acme'', tq_repo = Some ''handbook'', tq_branch = None\<rparr> 0 =
     (json_response (TreeResponse ''main'' [''README.md'', ''README.md'']) 200,
      [ReposGet ''acme'' ''handbook'', GetRef ''acme'' ''handbook'' ''heads/main'',
       GetTree ''acme'' ''handbook'' ''c0ffee'' ''1''], 3)
   \<and> \<not> distinct [''README.md'', ''README.md'']"
  by (simp add: tree_GET_def tree_GET_try_def run_defs demo_defs duplicate_markdownFiles)

text \<open>
  Claim C6, amended. The file list of a listing contains exactly the paths of the blob
  entries of the provider's tree that end in \<^verbatim>\<open>.md\<close> or \<^verbatim>\<open>.markdown\<close>, and it is sorted
  lexicographically; it has no duplicates whenever no two blob entries of the tree have the
  same path.
\<close>

theorem listing_files:
  assumes "tree_GET oct query w = (response, calls, w')"
    and "http_body response = TreeResponse branch files"
  shows "\<exists>sha w2 tree.
           git_getTree oct (string_of (tq_owner query)) (string_of (tq_repo query)) sha ''1'' w2 =
             (Inr tree, w') \<and>
           set files = {p. \<exists>item\<in>set tree. item_type item = Some ''blob'' \<and>
                          item_path item = Some p \<and> (suffix ''.md'' p \<or> suffix ''.markdown'' p)} \<and>
           sorted files \<and>
           (distinct (map item_path (filter (\<lambda>item. item_type item = Some ''blob'') tree))
              \<longrightarrow> distinct files)"
proof -
  from tree_GET_listing [OF assms] obtain sha w2 tree where
    "git_getTree oct (string_of (tq_owner query)) (string_of (tq_repo query)) sha ''1'' w2 =
       (Inr tree, w')" and "files = markdownFiles tree"
    by blast
  then show ?thesis
    using set_markdownFiles [of tree] sorted_markdownFiles [of tree] distinct_markdownFiles [of tree]
    by blast
qed

theorem listing_files_witness:
  "tree_GET demo_octokit
     \<lparr>tq_owner = Some ''acme'', tq_repo = Some ''handbook'', tq_branch = None\<rparr> 0 =
     (json_response (TreeResponse ''main'' [''README.markdown'', ''docs/guide.md'']) 200,
      [ReposGet ''acme'' ''handbook'', GetRef ''acme'' ''handbook'' ''heads/main'',
       GetTree ''acme'' ''handbook'' ''c0ffee'' ''1''], 3)
   \<and> distinct (map item_path (filter (\<lambda>item. item_type item = Some ''blob'') demo_tree))
   \<and> sorted [''README.markdown'', ''docs/guide.md'']
   \<and> distinct [''README.markdown'', ''docs/guide.md'']"
proof -
  have body: "http_body (json_response (TreeResponse ''main'' [''README.markdown'', ''docs/guide.md'']) 200)
      = TreeResponse ''main'' [''README.markdown'', ''docs/guide.md'']"
    by (simp add: json_response_def)
  have paths: "distinct (map item_path (filter (\<lambda>item. item_type item = Some ''blob'') demo_tree))"
    by (simp add: demo_tree_def)
  from listing_files [OF demo_tree_GET body] obtain tree where
    "tree = demo_tree" "sorted [''README.markdown'', ''docs/guide.md'']"
    "distinct (map item_path (filter (\<lambda>item. item_type item = Some ''blob'') tree))
       \<longrightarrow> distinct [''README.markdown'', ''docs/guide.md'']"
    by (auto simp: demo_octokit_def)
  with paths show ?thesis
    by (simp only: demo_tree_GET)
qed

text \<open>
  Claim C7. When the \<^verbatim>\<open>branch\<close> parameter is omitted, the \<^verbatim>\<open>branch\<close> of every
  \<^verbatim>\<open>TreeResponse\<close> the listing answers with is the \<^verbatim>\<open>default_branch\<close> that \<^verbatim>\<open>repos.get\<close>
  reported for the requested owner and repository.
\<close>

theorem default_branch_listing:
  assumes "tree_GET oct query w = (response, calls, w')"
    and "http_body response = TreeResponse branch files"
    and "tq_branch query = None"
  shows "\<exists>w1. repos_get oct (string_of (tq_owner query)) (string_of (tq_repo query)) w =
           (Inr branch, w1)"
proof -
  from tree_GET_listing [OF assms(1,2)] obtain l w1 where
    "resolveBranch oct (string_of (tq_owner query)) (string_of (tq_repo query))
       (tq_branch query) w = (Normal branch, l, w1)"
    by blast
  from resolveBranch_cases [OF this] assms(3) show ?thesis by auto
qed

theorem default_branch_listing_witness:
  "tq_branch \<lparr>tq_owner = Some ''acme'', tq_repo = Some ''handbook'', tq_branch = None\<rparr> = None
   \<and> tree_GET demo_octokit
     \<lparr>tq_owner = Some ''acme'', tq_repo = Some ''handbook'', tq_branch = None\<rparr> 0 =
     (json_response (TreeResponse ''main'' [''README.markdown'', ''docs/guide.md'']) 200,
      [ReposGet ''acme'' ''handbook'', GetRef ''acme'' ''handbook'' ''heads/main'',
       GetTree ''acme'' ''handbook'' ''c0ffee'' ''1''], 3)
   \<and> (\<exists>w1. repos_get demo_octokit ''acme'' ''handbook'' 0 = (Inr ''main'', w1))"
proof -
  have body: "http_body (json_response (TreeResponse ''main'' [''README.markdown'', ''docs/guide.md'']) 200)
      = TreeResponse ''main'' [''README.markdown'', ''docs/guide.md'']"
    by (simp add: json_response_def)
  from default_branch_listing [OF demo_tree_GET body]
  have "\<exists>w1. repos_get demo_octokit ''acme'' ''handbook'' 0 = (Inr ''main'', w1)"
    by simp
  then show ?thesis
    by (simp only: demo_tree_GET) simp
qed

section \<open>Fetching a file\<close>

text \<open>
  Claim C8. When \<^verbatim>\<open>repos.getContent\<close> resolves to a directory listing, or to a single
  entry whose type is not \<^verbatim>\<open>file\<close>, the handler answers 400 \<^verbatim>\<open>Not a file\<close> and not a
  \<^verbatim>\<open>FileResponse\<close>. This holds for the handler of \<^verbatim>\<open>src/app/api/repo/file/route.ts\<close> and
  for that of \<^verbatim>\<open>src/unnamed/part_000\<close>.
\<close>

theorem directory_is_not_a_file:
  assumes "owner \<noteq> []" "repo \<noteq> []" "path \<noteq> []"
    and "repos_getContent oct owner repo path (if truthy ref then ref else None) w =
           (Inr content, w1)"
    and "content = Listing entries \<or> (content = Entry entry \<and> entry_type entry \<noteq> ''file'')"
  shows "file_GET oct rt
           \<lparr>fq_owner = Some owner, fq_repo = Some repo, fq_path = Some path, fq_ref = ref\<rparr> w =
           (json_response (ErrorBody ''Not a file'') 400,
            [GetContent owner repo path (if truthy ref then ref else None)], w1)
       \<and> file_GET_part_000 oct rt
           \<lparr>fq_owner = Some owner, fq_repo = Some repo, fq_path = Some path, fq_ref = ref\<rparr> w =
           (json_response (ErrorBody ''Not a file'') 400,
            [GetContent owner repo path (if truthy ref then ref else None)], w1)"
proof -
  have "file_GET_try oct rt
      \<lparr>fq_owner = Some owner, fq_repo = Some repo, fq_path = Some path, fq_ref = ref\<rparr> w =
      (Return (json_response (ErrorBody ''Not a file'') 400),
       [GetContent owner repo path (if truthy ref then ref else None)], w1)"
    using assms
    by (auto simp: file_GET_try_def bind_Normal await_Inr respond_def Let_def)
  then show ?thesis
    by (simp add: file_GET_def file_GET_part_000_def try_catch_def)
qed

theorem directory_is_not_a_file_witness:
  "repos_getContent demo_octokit ''acme'' ''handbook'' ''docs'' None 0 =
     (Inr (Listing [demo_entry]), 1)
   \<and> file_GET demo_octokit demo_runtime
       \<lparr>fq_owner = Some ''acme'', fq_repo = Some ''handbook'', fq_path = Some ''docs'',
        fq_ref = None\<rparr> 0 =
       (json_response (ErrorBody ''Not a file'') 400,
        [GetContent ''acme'' ''handbook'' ''docs'' None], 1)
   \<and> file_GET_part_000 demo_octokit demo_runtime
       \<lparr>fq_owner = Some ''acme'', fq_repo = Some ''handbook'', fq_path = Some ''docs'',
        fq_ref = None\<rparr> 0 =
       (json_response (ErrorBody ''Not a file'') 400,
        [GetContent ''acme'' ''handbook'' ''docs'' None], 1)"
proof -
  have fetched: "repos_getContent demo_octokit ''acme'' ''handbook'' ''docs''
      (if truthy None then None else None) 0 = (Inr (Listing [demo_entry]), 1)"
    by (simp add: demo_octokit_def)
  from directory_is_not_a_file [OF _ _ _ fetched, of "[demo_entry]" demo_entry demo_runtime]
  show ?thesis
    using fetched by simp
qed

end
